theory Spec2Isabelle
  imports Complex_Main "HOL-Library.Word"
begin

section \<open>Numbers\<close>

text \<open>
  The program is a single Python script, \<^verbatim>\<open>main.py\<close>. Its numbers are modelled as follows.
  \<^item> A Python \<^verbatim>\<open>float\<close> (IEEE double) is a \<^typ>\<open>real\<close> and a \<^verbatim>\<open>complex128\<close> is a
    \<^typ>\<open>complex\<close>: rounding, overflow and NaN are not modelled. The concrete grids
    evaluated below have the samples \<open>-1\<close>, \<open>0\<close>, \<open>1\<close>, \<open>2\<close> and \<open>3\<close>, on which the double
    computation is exact, as is the collapse of the viewport under the multiplier \<open>0\<close>.
  \<^item> A Python \<^verbatim>\<open>int\<close> is an \<^typ>\<open>int\<close>; the array dimensions and the iteration budget,
    which the script only ever passes as the literals 900, 1600, 50 and 500, are \<^typ>\<open>nat\<close>.
  \<^item> The wall clock is an input: a function is given the values that its calls of
    \<^verbatim>\<open>time.time()\<close> return. \<^verbatim>\<open>time.sleep\<close> and the text shown while waiting change no state
    and are left out.
  \<^item> An entry of the \<^verbatim>\<open>np.int32\<close> array \<^verbatim>\<open>div_time\<close> is a 32-bit word, read as a signed
    number with \<^const>\<open>sint\<close>; storing the loop index truncates it to 32 bits.
\<close>

type_synonym int32 = "32 word"

section \<open>The escape-time evaluator\<close>

text \<open>
  \<^verbatim>\<open>np.linspace(start, stop, num)\<close> is a function of the NumPy library, not of the script:
  \<^verbatim>\<open>num\<close> evenly spaced samples over the closed interval, computed as
  \<^verbatim>\<open>start + i * ((stop - start) / (num - 1))\<close>, the last one set to \<^verbatim>\<open>stop\<close> itself; a
  single sample is \<^verbatim>\<open>start\<close>.
\<close>

definition linspace :: "real \<Rightarrow> real \<Rightarrow> nat \<Rightarrow> real list" where
  "linspace start stop num =
     (if num = 0 then []
      else if num = 1 then [start]
      else (map (\<lambda>i. start + real i * ((stop - start) / real (num - 1))) [0..<num])
             [num - 1 := stop])"

text \<open>Line 19: \<^verbatim>\<open>C = x + y[:, None] * 1j\<close>, one row per entry of \<^verbatim>\<open>y\<close>.\<close>

definition grid_C :: "real list \<Rightarrow> real list \<Rightarrow> complex list list" where
  "grid_C x y = map (\<lambda>yj. map (\<lambda>xk. complex_of_real xk + complex_of_real yj * \<i>) x) y"

text \<open>The two arrays the loops mutate (lines 20 and 21).\<close>

record arrays =
  Z :: "complex list list"
  div_time :: "int32 list list"

definition zeros :: "nat \<Rightarrow> nat \<Rightarrow> 'a::zero list list" where
  "zeros h w = replicate h (replicate w 0)"

text \<open>An indexed assignment \<^verbatim>\<open>A[j, k] = v\<close> to a two-dimensional array.\<close>

definition set2d :: "'a list list \<Rightarrow> nat \<Rightarrow> nat \<Rightarrow> 'a \<Rightarrow> 'a list list" where
  "set2d A j k v = A[j := (A ! j)[k := v]]"

text \<open>The escape test of line 28, on the squared modulus.\<close>

definition escaped :: "complex \<Rightarrow> bool" where
  "escaped z \<longleftrightarrow> Re z * Re z + Im z * Im z > 4"

text \<open>
  Lines 26 to 29, the body of the innermost loop at loop indices \<open>i\<close>, \<open>j\<close>, \<open>k\<close>. The
  indices are always in range (\<open>j < h\<close>, \<open>k < w\<close> on arrays of shape \<open>h \<times> w\<close>).
\<close>

definition cell_update :: "complex list list \<Rightarrow> nat \<Rightarrow> nat \<Rightarrow> nat \<Rightarrow> arrays \<Rightarrow> arrays" where
  "cell_update C i j k s =
     (if div_time s ! j ! k = 0 then
        let s' = s\<lparr>Z := set2d (Z s) j k (Z s ! j ! k * Z s ! j ! k + C ! j ! k)\<rparr>
        in if escaped (Z s' ! j ! k)
           then s'\<lparr>div_time := set2d (div_time s') j k (word_of_nat i)\<rparr>
           else s'
      else s)"

text \<open>Line 25: \<^verbatim>\<open>for k in range(w)\<close>.\<close>

definition loop_k :: "complex list list \<Rightarrow> nat \<Rightarrow> nat \<Rightarrow> nat \<Rightarrow> arrays \<Rightarrow> arrays" where
  "loop_k C w i j s = foldl (\<lambda>s k. cell_update C i j k s) s [0..<w]"

text \<open>Line 24: \<^verbatim>\<open>for j in range(h)\<close>.\<close>

definition loop_j :: "complex list list \<Rightarrow> nat \<Rightarrow> nat \<Rightarrow> nat \<Rightarrow> arrays \<Rightarrow> arrays" where
  "loop_j C h w i s = foldl (\<lambda>s j. loop_k C w i j s) s [0..<h]"

text \<open>Line 23: \<^verbatim>\<open>for i in range(max_iter)\<close>.\<close>

definition loop_i :: "complex list list \<Rightarrow> nat \<Rightarrow> nat \<Rightarrow> nat \<Rightarrow> arrays \<Rightarrow> arrays" where
  "loop_i C h w max_iter s = foldl (\<lambda>s i. loop_j C h w i s) s [0..<max_iter]"

text \<open>
  Lines 16 to 31. \<^verbatim>\<open>C.shape\<close> is \<open>(h, w)\<close>, the lengths of \<^verbatim>\<open>y\<close> and \<^verbatim>\<open>x\<close>. The four
  bounds are named \<open>xmin\<close>, \<open>xmax\<close>, \<open>ymin\<close>, \<open>ymax\<close> here, since \<open>x_min\<close> and the others
  are the fields of the session state below.
\<close>

definition sample_grid :: "nat \<Rightarrow> nat \<Rightarrow> real \<Rightarrow> real \<Rightarrow> real \<Rightarrow> real \<Rightarrow> complex list list" where
  "sample_grid h w xmin xmax ymin ymax = grid_C (linspace xmin xmax w) (linspace ymin ymax h)"

definition mandelbrot ::
  "nat \<Rightarrow> nat \<Rightarrow> real \<Rightarrow> real \<Rightarrow> real \<Rightarrow> real \<Rightarrow> nat \<Rightarrow> int32 list list" where
  "mandelbrot h w xmin xmax ymin ymax max_iter =
     (let C = sample_grid h w xmin xmax ymin ymax;
          s0 = \<lparr>Z = zeros h w, div_time = zeros h w\<rparr>
      in div_time (loop_i C h w max_iter s0))"

text \<open>
  The outcome of a call of \<^verbatim>\<open>mandelbrot\<close>: \<open>Inl e\<close> when the call raises \<open>e\<close>, \<open>Inr g\<close> when
  it returns \<open>g\<close>. The error kinds are the ones the specification names; the script defines
  no exception class and has no \<^verbatim>\<open>raise\<close> statement. The body of \<^verbatim>\<open>mandelbrot\<close> (lines 17
  to 31) checks none of its arguments, its three loops are bounded \<^verbatim>\<open>for\<close> loops and every
  index is in range, so control always reaches \<^verbatim>\<open>return div_time\<close>.
\<close>

datatype error = InvalidViewport | InvalidZoomFactor | DegenerateViewport | RenderFailure

definition mandelbrot_call ::
  "nat \<Rightarrow> nat \<Rightarrow> real \<Rightarrow> real \<Rightarrow> real \<Rightarrow> real \<Rightarrow> nat \<Rightarrow> error + int32 list list" where
  "mandelbrot_call h w xmin xmax ymin ymax max_iter =
     Inr (mandelbrot h w xmin xmax ymin ymax max_iter)"

subsection \<open>One cell at a time\<close>

text \<open>
  The loop body touches the cell \<open>(j, k)\<close> only, so the run of the three loops is, for
  each cell, a run of the steps below on that cell's pair of \<^verbatim>\<open>Z\<close> and \<^verbatim>\<open>div_time\<close>
  entries. These definitions serve the proofs; \<open>mandelbrot_cell\<close> relates them to the loops.
\<close>

definition wf_arrays :: "nat \<Rightarrow> nat \<Rightarrow> arrays \<Rightarrow> bool" where
  "wf_arrays h w s \<longleftrightarrow>
     length (Z s) = h \<and> length (div_time s) = h \<and>
     (\<forall>j<h. length (Z s ! j) = w \<and> length (div_time s ! j) = w)"

definition cell :: "arrays \<Rightarrow> nat \<Rightarrow> nat \<Rightarrow> complex \<times> int32" where
  "cell s j k = (Z s ! j ! k, div_time s ! j ! k)"

definition cell_step :: "nat \<Rightarrow> complex \<Rightarrow> complex \<times> int32 \<Rightarrow> complex \<times> int32" where
  "cell_step i c st =
     (if snd st = 0 then
        let z = fst st * fst st + c
        in (z, if escaped z then word_of_nat i else snd st)
      else st)"

definition cell_iter :: "complex \<Rightarrow> nat \<Rightarrow> complex \<times> int32" where
  "cell_iter c n = foldl (\<lambda>st i. cell_step i c st) (0, 0) [0..<n]"

section \<open>The session state and the click handler\<close>

text \<open>
  The fields of \<^verbatim>\<open>st.session_state\<close> (lines 47 to 72), but for the image buffer
  \<^verbatim>\<open>mandelbrot_bg\<close>.
\<close>

datatype quality = very_low | high

record session =
  x_min :: real
  x_max :: real
  y_min :: real
  y_max :: real
  resolution :: "nat \<times> nat"
  zoom_factor :: int
  total_zoom :: real
  last_point :: "(real \<times> real) option"
  clear_canvas :: bool
  zoom_pending :: bool
  image_quality :: quality
  last_click_time :: real

text \<open>Lines 47 to 72; \<open>now\<close> is the value of \<^verbatim>\<open>time.time()\<close> at line 72.\<close>

definition initial_state :: "real \<Rightarrow> session" where
  "initial_state now =
     \<lparr>x_min = - 2.5, x_max = 1.0, y_min = - 1.25, y_max = 1.25,
      resolution = (1600, 900), zoom_factor = 1, total_zoom = 1.0,
      last_point = None, clear_canvas = False, zoom_pending = False,
      image_quality = very_low, last_click_time = now\<rparr>"

text \<open>
  The sample grid of the render calls (lines 76, 162 and 184): \<^verbatim>\<open>generate_mandelbrot_image\<close>
  is given \<^verbatim>\<open>resolution[0]\<close> as the width and \<^verbatim>\<open>resolution[1]\<close> as the height, and calls
  \<^verbatim>\<open>mandelbrot(height, width, x_min, x_max, y_min, y_max, max_iter)\<close> (line 35).
\<close>

definition session_grid :: "session \<Rightarrow> complex list list" where
  "session_grid s =
     sample_grid (snd (resolution s)) (fst (resolution s)) (x_min s) (x_max s) (y_min s) (y_max s)"

text \<open>
  Lines 90 and 91: the slider returns an integer between \<open>-1000\<close> and \<open>1000\<close> in steps of
  1, which is stored.
\<close>

definition slider :: "int \<Rightarrow> session \<Rightarrow> session" where
  "slider v s = s\<lparr>zoom_factor := v\<rparr>"

text \<open>Lines 126 to 129: the click position rescaled to the plane.\<close>

definition x_range :: "session \<Rightarrow> real" where
  "x_range s = x_max s - x_min s"

definition y_range :: "session \<Rightarrow> real" where
  "y_range s = y_max s - y_min s"

definition new_x :: "session \<Rightarrow> real \<Rightarrow> real" where
  "new_x s x = x_min s + (x / 1600) * x_range s"

definition new_y :: "session \<Rightarrow> real \<Rightarrow> real" where
  "new_y s y = y_min s + (y / 900) * y_range s"

text \<open>
  Lines 134 to 138: the local variable \<^verbatim>\<open>zoom_factor\<close>, computed from the slider's value.
  \<^verbatim>\<open>1 / n\<close> is Python's true division; the \<^verbatim>\<open>else\<close> branch takes every \<open>n \<le> 0\<close>.
\<close>

definition calc_zoom_factor :: "int \<Rightarrow> real" where
  "calc_zoom_factor n = (if n > 0 then 1 / real_of_int n else real_of_int \<bar>n\<bar>)"

text \<open>
  Lines 116 to 154: the handler's body for a dot at \<open>(x, y)\<close>, the canvas's \<^verbatim>\<open>left\<close> and
  \<^verbatim>\<open>top\<close>; \<open>now\<close> is the value of \<^verbatim>\<open>time.time()\<close> at line 123.
\<close>

definition zoom_click :: "real \<Rightarrow> real \<Rightarrow> real \<Rightarrow> session \<Rightarrow> session" where
  "zoom_click now x y s =
     (let zf = calc_zoom_factor (zoom_factor s);
          x_range_zoomed = x_range s * zf;
          y_range_zoomed = y_range s * zf
      in s\<lparr>last_point := Some (x, y),
            last_click_time := now,
            x_min := new_x s x - x_range_zoomed / 2,
            x_max := new_x s x + x_range_zoomed / 2,
            y_min := new_y s y - y_range_zoomed / 2,
            y_max := new_y s y + y_range_zoomed / 2,
            total_zoom := total_zoom s * zf,
            clear_canvas := True,
            zoom_pending := True,
            image_quality := very_low\<rparr>)"

text \<open>
  Lines 110 to 157: the flag is reset, and the handler runs when the canvas holds a dot
  and no zoom is pending. \<open>json_data\<close> is \<open>None\<close> or the list of the canvas objects, each
  given by its \<^verbatim>\<open>left\<close> and \<^verbatim>\<open>top\<close>; the last one is used.
\<close>

definition canvas_click :: "real \<Rightarrow> (real \<times> real) list option \<Rightarrow> session \<Rightarrow> session" where
  "canvas_click now json_data s =
     (let s1 = s\<lparr>clear_canvas := False\<rparr>
      in case json_data of
           None \<Rightarrow> s1
         | Some objs \<Rightarrow>
             if length objs > 0 \<and> \<not> zoom_pending s1
             then zoom_click now (fst (last objs)) (snd (last objs)) s1
             else s1)"

text \<open>
  Lines 160 to 171: on the run after a click the draft image is rendered (with the iteration
  budget 50) and the pending flag is cleared.
\<close>

definition zoom_pending_block :: "session \<Rightarrow> session" where
  "zoom_pending_block s =
     (if zoom_pending s then s\<lparr>image_quality := very_low, zoom_pending := False\<rparr> else s)"

section \<open>A run of the script\<close>

text \<open>
  A request for an image: the arguments of a call of \<^verbatim>\<open>generate_mandelbrot_image\<close> (lines
  162 to 165 and 184 to 187), taken from the session state, with the iteration budget.
\<close>

record render_request =
  rq_x_min :: real
  rq_x_max :: real
  rq_y_min :: real
  rq_y_max :: real
  rq_width :: nat
  rq_height :: nat
  rq_max_iter :: nat

definition render_call :: "session \<Rightarrow> nat \<Rightarrow> render_request" where
  "render_call s budget =
     \<lparr>rq_x_min = x_min s, rq_x_max = x_max s, rq_y_min = y_min s, rq_y_max = y_max s,
      rq_width = fst (resolution s), rq_height = snd (resolution s), rq_max_iter = budget\<rparr>"

text \<open>
  How a run ends: with \<^verbatim>\<open>st.experimental_rerun()\<close>, which stops the run and starts the
  next one (lines 157, 171 and 192); at the end of the script; or cut off while it still
  waits in the loop of line 176.
\<close>

datatype status = Rerun | Ended | Interrupted

text \<open>The test of lines 113 and 179: the canvas holds at least one object.\<close>

definition has_dot :: "(real \<times> real) list option \<Rightarrow> bool" where
  "has_dot json_data = (case json_data of None \<Rightarrow> False | Some objs \<Rightarrow> length objs > 0)"

text \<open>
  Lines 176 to 192, the \<^verbatim>\<open>while\<close> loop with its \<^verbatim>\<open>else\<close> clause. \<open>clock n\<close> is the value of
  the \<open>n\<close>-th call of \<^verbatim>\<open>time.time()\<close> in the run, counted from 0, and \<open>i\<close> the number of
  calls made so far: an iteration reads the clock for the loop condition (line 176) and
  for the text shown (line 177), and once more when it leaves through \<^verbatim>\<open>break\<close> (line 180).
  \<open>dot\<close> is the test of line 179 on \<^verbatim>\<open>canvas_result\<close>, which does not change during a run.
  The loop need not end, so it runs on fuel: \<open>fuel\<close> is the number of times the loop
  condition is tested before the run is cut off. The result is the state, the image
  requests made and the way the run ended. After \<^verbatim>\<open>break\<close> the run goes on to the end of
  the script.
\<close>

fun wait_loop ::
  "nat \<Rightarrow> bool \<Rightarrow> (nat \<Rightarrow> real) \<Rightarrow> nat \<Rightarrow> session \<Rightarrow> session \<times> render_request list \<times> status" where
  "wait_loop 0 dot clock i s = (s, [], Interrupted)"
| "wait_loop (Suc fuel) dot clock i s =
     (if clock i - last_click_time s < 10 then
        if dot then (s\<lparr>last_click_time := clock (i + 2)\<rparr>, [], Ended)
        else wait_loop fuel dot clock (i + 2) s
      else (s\<lparr>image_quality := high\<rparr>, [render_call s 500], Rerun))"

text \<open>Lines 174 to 196.\<close>

definition quality_upgrade ::
  "(real \<times> real) list option \<Rightarrow> nat \<Rightarrow> (nat \<Rightarrow> real) \<Rightarrow> session \<Rightarrow>
     session \<times> render_request list \<times> status" where
  "quality_upgrade json_data fuel clock s =
     (if image_quality s = very_low then wait_loop fuel (has_dot json_data) clock 0 s
      else (s, [], Ended))"

text \<open>
  One run of the script from line 82 on, in a session whose state is initialised (lines 47
  to 80 then change nothing). \<open>v\<close> is the value the slider returns and \<open>json_data\<close> the
  content of the canvas in this run. A run that handles a dot stops at line 157, a run
  with a zoom pending renders the draft and stops at line 171, and any other run reaches
  line 174.
\<close>

definition script_run ::
  "int \<Rightarrow> (real \<times> real) list option \<Rightarrow> nat \<Rightarrow> (nat \<Rightarrow> real) \<Rightarrow> session \<Rightarrow>
     session \<times> render_request list \<times> status" where
  "script_run v json_data fuel clock s =
     (let s0 = slider v s
      in if has_dot json_data \<and> \<not> zoom_pending s0
         then (canvas_click (clock 0) json_data s0, [], Rerun)
         else let s1 = s0\<lparr>clear_canvas := False\<rparr>
              in if zoom_pending s1
                 then (zoom_pending_block s1, [render_call s1 50], Rerun)
                 else quality_upgrade json_data fuel clock s1)"

text \<open>
  One zoom interaction: the user sets the slider to \<open>v\<close> and draws a dot at \<open>(x, y)\<close> at
  time \<open>now\<close>. The run that sees the dot handles it and stops at line 157; the next run
  reads the slider again, resets \<^verbatim>\<open>clear_canvas\<close> (line 110), skips the handler, whatever
  the canvas holds, since a zoom is pending, and renders the draft (lines 160 to 171).
  Neither run reaches the loop of line 176.
\<close>

definition zoom_interaction :: "session \<Rightarrow> real \<times> int \<times> real \<times> real \<Rightarrow> session" where
  "zoom_interaction s a =
     (case a of (now, v, x, y) \<Rightarrow>
        fst (script_run v None 0 (\<lambda>n. now)
               (fst (script_run v (Some [(x, y)]) 0 (\<lambda>n. now) s))))"

section \<open>The loops, cell by cell\<close>

lemma length_linspace: "length (linspace a b n) = n"
  by (simp add: linspace_def)

lemma length_set2d: "length (set2d A j k v) = length A"
  by (simp add: set2d_def)

lemma length_set2d_row: "length (set2d A j k v ! j') = length (A ! j')"
  by (cases "j < length A") (simp_all add: set2d_def nth_list_update list_update_beyond)

lemma nth_set2d:
  "j < length A \<Longrightarrow> k < length (A ! j) \<Longrightarrow>
     set2d A j k v ! j' ! k' = (if j' = j \<and> k' = k then v else A ! j' ! k')"
  by (simp add: set2d_def nth_list_update)

lemma cell_update_wf: "wf_arrays h w s \<Longrightarrow> wf_arrays h w (cell_update C i j k s)"
  by (simp add: wf_arrays_def cell_update_def Let_def length_set2d length_set2d_row)

lemma cell_update_cell:
  assumes "wf_arrays h w s" "j < h" "k < w" "j' < h" "k' < w"
  shows "cell (cell_update C i j k s) j' k' =
           (if j' = j \<and> k' = k then cell_step i (C ! j ! k) (cell s j k) else cell s j' k')"
  using assms
  by (simp add: wf_arrays_def cell_update_def cell_def cell_step_def Let_def nth_set2d)

lemma loop_k_upto:
  assumes "wf_arrays h w s" "j < h" "n \<le> w"
  shows "wf_arrays h w (foldl (\<lambda>s k. cell_update C i j k s) s [0..<n]) \<and>
         (\<forall>j'<h. \<forall>k'<w. cell (foldl (\<lambda>s k. cell_update C i j k s) s [0..<n]) j' k' =
            (if j' = j \<and> k' < n then cell_step i (C ! j ! k') (cell s j k') else cell s j' k'))"
  using assms(3)
proof (induction n)
  case 0
  then show ?case using assms(1) by simp
next
  case (Suc n)
  then have IH: "wf_arrays h w (foldl (\<lambda>s k. cell_update C i j k s) s [0..<n])"
    "\<And>j' k'. j' < h \<Longrightarrow> k' < w \<Longrightarrow> cell (foldl (\<lambda>s k. cell_update C i j k s) s [0..<n]) j' k' =
            (if j' = j \<and> k' < n then cell_step i (C ! j ! k') (cell s j k') else cell s j' k')"
    and n: "n < w" by auto
  show ?case
    using IH(1) n assms(2)
    by (auto simp: cell_update_wf cell_update_cell [OF IH(1)] IH(2) less_Suc_eq)
qed

lemma loop_k_wf: "wf_arrays h w s \<Longrightarrow> j < h \<Longrightarrow> wf_arrays h w (loop_k C w i j s)"
  using loop_k_upto [of h w s j w C i] by (simp add: loop_k_def)

lemma loop_k_cell:
  "wf_arrays h w s \<Longrightarrow> j < h \<Longrightarrow> j' < h \<Longrightarrow> k' < w \<Longrightarrow>
     cell (loop_k C w i j s) j' k' =
       (if j' = j then cell_step i (C ! j ! k') (cell s j k') else cell s j' k')"
  using loop_k_upto [of h w s j w C i] by (simp add: loop_k_def)

lemma loop_j_upto:
  assumes "wf_arrays h w s" "m \<le> h"
  shows "wf_arrays h w (foldl (\<lambda>s j. loop_k C w i j s) s [0..<m]) \<and>
         (\<forall>j'<h. \<forall>k'<w. cell (foldl (\<lambda>s j. loop_k C w i j s) s [0..<m]) j' k' =
            (if j' < m then cell_step i (C ! j' ! k') (cell s j' k') else cell s j' k'))"
  using assms(2)
proof (induction m)
  case 0
  then show ?case using assms(1) by simp
next
  case (Suc m)
  then have IH: "wf_arrays h w (foldl (\<lambda>s j. loop_k C w i j s) s [0..<m])"
    "\<And>j' k'. j' < h \<Longrightarrow> k' < w \<Longrightarrow> cell (foldl (\<lambda>s j. loop_k C w i j s) s [0..<m]) j' k' =
            (if j' < m then cell_step i (C ! j' ! k') (cell s j' k') else cell s j' k')"
    and m: "m < h" by auto
  show ?case
    using IH(1) m
    by (auto simp: loop_k_wf loop_k_cell [OF IH(1)] IH(2) less_Suc_eq)
qed

lemma loop_j_wf: "wf_arrays h w s \<Longrightarrow> wf_arrays h w (loop_j C h w i s)"
  using loop_j_upto [of h w s h C i] by (simp add: loop_j_def)

lemma loop_j_cell:
  "wf_arrays h w s \<Longrightarrow> j < h \<Longrightarrow> k < w \<Longrightarrow>
     cell (loop_j C h w i s) j k = cell_step i (C ! j ! k) (cell s j k)"
  using loop_j_upto [of h w s h C i] by (simp add: loop_j_def)

lemma loop_i_upto:
  assumes "wf_arrays h w s"
  shows "wf_arrays h w (foldl (\<lambda>s i. loop_j C h w i s) s [0..<n]) \<and>
         (\<forall>j<h. \<forall>k<w. cell (foldl (\<lambda>s i. loop_j C h w i s) s [0..<n]) j k =
            foldl (\<lambda>st i. cell_step i (C ! j ! k) st) (cell s j k) [0..<n])"
proof (induction n)
  case 0
  then show ?case using assms by simp
next
  case (Suc n)
  then show ?case by (simp add: loop_j_wf loop_j_cell)
qed

lemma wf_zeros: "wf_arrays h w \<lparr>Z = zeros h w, div_time = zeros h w\<rparr>"
  by (simp add: wf_arrays_def zeros_def)

lemma cell_zeros: "j < h \<Longrightarrow> k < w \<Longrightarrow> cell \<lparr>Z = zeros h w, div_time = zeros h w\<rparr> j k = (0, 0)"
  by (simp add: cell_def zeros_def)

lemma mandelbrot_length: "length (mandelbrot h w xmin xmax ymin ymax max_iter) = h"
  using loop_i_upto [OF wf_zeros, of h w _ max_iter]
  by (simp add: mandelbrot_def Let_def loop_i_def wf_arrays_def)

lemma mandelbrot_row_length:
  "j < h \<Longrightarrow> length (mandelbrot h w xmin xmax ymin ymax max_iter ! j) = w"
  using loop_i_upto [OF wf_zeros, of h w _ max_iter]
  by (simp add: mandelbrot_def Let_def loop_i_def wf_arrays_def)

lemma mandelbrot_cell:
  assumes "j < h" "k < w"
  shows "mandelbrot h w xmin xmax ymin ymax max_iter ! j ! k =
       snd (cell_iter (sample_grid h w xmin xmax ymin ymax ! j ! k) max_iter)"
proof -
  let ?C = "sample_grid h w xmin xmax ymin ymax"
  let ?s = "loop_i ?C h w max_iter \<lparr>Z = zeros h w, div_time = zeros h w\<rparr>"
  have "cell ?s j k = cell_iter (?C ! j ! k) max_iter"
    using loop_i_upto [OF wf_zeros, of h w ?C max_iter] assms
    by (simp add: loop_i_def cell_iter_def cell_zeros)
  then have "snd (cell ?s j k) = snd (cell_iter (?C ! j ! k) max_iter)"
    by simp
  then have "div_time ?s ! j ! k = snd (cell_iter (?C ! j ! k) max_iter)"
    by (simp add: cell_def)
  then show ?thesis
    by (simp add: mandelbrot_def Let_def)
qed

lemma cell_iter_0: "cell_iter c 0 = (0, 0)"
  by (simp add: cell_iter_def)

lemma cell_iter_Suc: "cell_iter c (Suc n) = cell_step n c (cell_iter c n)"
  by (simp add: cell_iter_def)

lemma loop_i_cell:
  "j < h \<Longrightarrow> k < w \<Longrightarrow>
     cell (loop_i C h w n \<lparr>Z = zeros h w, div_time = zeros h w\<rparr>) j k = cell_iter (C ! j ! k) n"
  using loop_i_upto [OF wf_zeros, of h w C n]
  by (simp add: loop_i_def cell_iter_def cell_zeros)

lemma nth_linspace:
  "k < n \<Longrightarrow> linspace a b n ! k = (if n = 1 then a else a + real k * ((b - a) / real (n - 1)))"
  by (auto simp: linspace_def nth_list_update)

lemma nth_grid_C:
  "j < length y \<Longrightarrow> k < length x \<Longrightarrow> grid_C x y ! j ! k = Complex (x ! k) (y ! j)"
  by (simp add: grid_C_def complex_eq_iff)

lemma nth_sample_grid:
  "j < h \<Longrightarrow> k < w \<Longrightarrow>
     sample_grid h w xmin xmax ymin ymax ! j ! k =
       Complex (linspace xmin xmax w ! k) (linspace ymin ymax h ! j)"
  by (simp add: sample_grid_def nth_grid_C length_linspace)

lemma cell_iter_zero: "cell_iter 0 n = (0, 0)"
  by (induction n) (simp_all add: cell_iter_0 cell_iter_Suc cell_step_def escaped_def)

lemma cell_iter_three_1: "cell_iter 3 (Suc 0) = (3, 0)"
  by (simp add: cell_iter_0 cell_iter_Suc cell_step_def escaped_def)

lemma cell_iter_three: "cell_iter 3 (Suc (Suc n)) = (12, 1)"
  by (induction n) (simp_all add: cell_iter_three_1 cell_iter_Suc [of _ "Suc _"] cell_step_def escaped_def)

lemma cell_iter_range: "snd (cell_iter c n) = 0 \<or> (\<exists>i<n. snd (cell_iter c n) = word_of_nat i)"
proof (induction n)
  case 0
  then show ?case by (simp add: cell_iter_0)
next
  case (Suc n)
  then show ?case
    by (auto simp: cell_iter_Suc cell_step_def Let_def less_Suc_eq)
qed

lemma sint_word_of_nat:
  "i < 2 ^ 31 \<Longrightarrow> sint (word_of_nat i :: int32) = int i"
proof -
  assume "i < 2 ^ 31"
  then have "int i < 2 ^ 31" by (metis of_nat_less_iff of_nat_numeral of_nat_power)
  moreover have "- (2 ^ 31) \<le> int i" by simp
  ultimately have "signed_take_bit 31 (int i) = int i"
    by (rule signed_take_bit_int_eq_self [rotated])
  then show ?thesis by (simp add: signed_of_nat)
qed

section \<open>The returned grid\<close>

text \<open>The grid \<^verbatim>\<open>mandelbrot\<close> returns, written cell by cell.\<close>

lemma mandelbrot_eq:
  "mandelbrot h w xmin xmax ymin ymax max_iter =
     map (\<lambda>j. map (\<lambda>k. snd (cell_iter (sample_grid h w xmin xmax ymin ymax ! j ! k) max_iter))
                 [0..<w]) [0..<h]"
proof (rule nth_equalityI)
  show "length (mandelbrot h w xmin xmax ymin ymax max_iter) =
        length (map (\<lambda>j. map (\<lambda>k. snd (cell_iter (sample_grid h w xmin xmax ymin ymax ! j ! k) max_iter))
                 [0..<w]) [0..<h])"
    by (simp add: mandelbrot_length)
next
  fix j
  assume "j < length (mandelbrot h w xmin xmax ymin ymax max_iter)"
  then have j: "j < h" by (simp add: mandelbrot_length)
  have "mandelbrot h w xmin xmax ymin ymax max_iter ! j =
        map (\<lambda>k. snd (cell_iter (sample_grid h w xmin xmax ymin ymax ! j ! k) max_iter)) [0..<w]"
    by (rule nth_equalityI) (simp_all add: j mandelbrot_row_length mandelbrot_cell)
  then show "mandelbrot h w xmin xmax ymin ymax max_iter ! j =
        map (\<lambda>j. map (\<lambda>k. snd (cell_iter (sample_grid h w xmin xmax ymin ymax ! j ! k) max_iter))
                 [0..<w]) [0..<h] ! j"
    using j by simp
qed

lemma upt_2: "[0..<2] = [0, Suc 0]"
  by (simp add: numeral_2_eq_2)

lemma mandelbrot_entry:
  assumes "row \<in> set (mandelbrot h w xmin xmax ymin ymax max_iter)" and "e \<in> set row"
  shows "\<exists>c. e = snd (cell_iter c max_iter)"
proof -
  let ?g = "mandelbrot h w xmin xmax ymin ymax max_iter"
  from assms(1) obtain j where j: "j < length ?g" and row: "row = ?g ! j"
    by (auto simp: in_set_conv_nth)
  from j have jh: "j < h" by (simp add: mandelbrot_length)
  from assms(2) obtain k where k: "k < length row" and e: "e = row ! k"
    by (auto simp: in_set_conv_nth)
  from k row jh have kw: "k < w" by (simp add: mandelbrot_row_length)
  have "e = snd (cell_iter (sample_grid h w xmin xmax ymin ymax ! j ! k) max_iter)"
    unfolding e row using jh kw by (rule mandelbrot_cell)
  then show ?thesis ..
qed

lemma cell_iter_sint_range:
  assumes "1 \<le> n" and "n \<le> 2 ^ 31"
  shows "0 \<le> sint (snd (cell_iter c n)) \<and> sint (snd (cell_iter c n)) \<le> int n - 1"
  using cell_iter_range [of c n]
proof
  assume "snd (cell_iter c n) = 0"
  then show ?thesis using assms(1) by simp
next
  assume "\<exists>i<n. snd (cell_iter c n) = word_of_nat i"
  then obtain i where i: "i < n" and eq: "snd (cell_iter c n) = word_of_nat i"
    by blast
  have "i < 2 ^ 31" using i assms(2) by simp
  then have "sint (snd (cell_iter c n)) = int i"
    unfolding eq by (rule sint_word_of_nat)
  then show ?thesis using i by simp
qed

lemma mandelbrot_cell_zero:
  assumes "j < h" and "k < w"
    and "sample_grid h w xmin xmax ymin ymax ! j ! k = 0"
  shows "mandelbrot h w xmin xmax ymin ymax max_iter ! j ! k = 0"
proof -
  have "mandelbrot h w xmin xmax ymin ymax max_iter ! j ! k =
        snd (cell_iter (sample_grid h w xmin xmax ymin ymax ! j ! k) max_iter)"
    using assms(1,2) by (rule mandelbrot_cell)
  also have "\<dots> = 0"
    by (simp only: assms(3) cell_iter_zero snd_conv)
  finally show ?thesis .
qed

text \<open>Three small grids, used as concrete inputs below.\<close>

lemma sample_grid_witness_0: "sample_grid 3 3 (- 1) 1 (- 1) 1 ! 1 ! 1 = 0"
proof -
  have "sample_grid 3 3 (- 1) 1 (- 1) 1 ! 1 ! 1 =
        Complex (linspace (- 1) 1 3 ! 1) (linspace (- 1) 1 3 ! 1)"
    by (rule nth_sample_grid) simp_all
  also have "linspace (- 1) 1 3 ! 1 = 0"
    by (subst nth_linspace) simp_all
  finally show ?thesis by (simp add: complex_eq_iff)
qed

lemma sample_grid_witness_3: "sample_grid 3 3 1 3 (- 1) 1 ! 1 ! 2 = 3"
proof -
  have "sample_grid 3 3 1 3 (- 1) 1 ! 1 ! 2 =
        Complex (linspace 1 3 3 ! 2) (linspace (- 1) 1 3 ! 1)"
    by (rule nth_sample_grid) simp_all
  also have "linspace 1 3 3 ! 2 = 3"
    by (subst nth_linspace) simp_all
  also have "linspace (- 1) 1 3 ! 1 = 0"
    by (subst nth_linspace) simp_all
  finally show ?thesis by (simp add: complex_eq_iff)
qed

lemma sample_grid_unordered:
  "sample_grid 2 2 1 0 1 0 = [[Complex 1 1, Complex 0 1], [Complex 1 0, Complex 0 0]]"
  by (simp add: sample_grid_def grid_C_def linspace_def upt_2 complex_eq_iff)

section \<open>Properties of the evaluator\<close>

text \<open>
  C3, as the code has it. A cell whose sample is \<open>c = 0 + 0i\<close> never passes the escape test,
  whatever the iteration budget, and its entry of the returned grid is \<open>0\<close>: the value
  \<^verbatim>\<open>div_time\<close> is initialised with, which line 26 reads as "not escaped yet". The budget
  \<^verbatim>\<open>max_iter\<close> is not what is recorded.
\<close>

theorem mandelbrot_origin_zero:
  assumes "j < h" and "k < w"
    and "sample_grid h w xmin xmax ymin ymax ! j ! k = 0"
  shows "mandelbrot h w xmin xmax ymin ymax max_iter ! j ! k = 0 \<and>
         (\<forall>n. \<not> escaped (Z (loop_i (sample_grid h w xmin xmax ymin ymax) h w n
                                \<lparr>Z = zeros h w, div_time = zeros h w\<rparr>) ! j ! k))"
proof (intro conjI allI)
  show "mandelbrot h w xmin xmax ymin ymax max_iter ! j ! k = 0"
    using assms by (rule mandelbrot_cell_zero)
next
  fix n
  let ?s = "loop_i (sample_grid h w xmin xmax ymin ymax) h w n
              \<lparr>Z = zeros h w, div_time = zeros h w\<rparr>"
  have "cell ?s j k = cell_iter (sample_grid h w xmin xmax ymin ymax ! j ! k) n"
    using assms(1,2) by (rule loop_i_cell)
  also have "\<dots> = (0, 0)"
    by (simp only: assms(3) cell_iter_zero)
  finally have "Z ?s ! j ! k = 0"
    by (simp add: cell_def)
  then show "\<not> escaped (Z ?s ! j ! k)"
    by (simp add: escaped_def)
qed

text \<open>The centre cell of the \<open>3 \<times> 3\<close> grid over \<open>[-1, 1] \<times> [-1, 1]\<close>, budget 50.\<close>

theorem mandelbrot_origin_zero_witness:
  "(1::nat) < 3 \<and> sample_grid 3 3 (- 1) 1 (- 1) 1 ! 1 ! 1 = 0 \<and>
   mandelbrot 3 3 (- 1) 1 (- 1) 1 50 ! 1 ! 1 = 0 \<and>
   \<not> escaped (Z (loop_i (sample_grid 3 3 (- 1) 1 (- 1) 1) 3 3 50
                        \<lparr>Z = zeros 3 3, div_time = zeros 3 3\<rparr>) ! 1 ! 1)"
proof -
  have lt: "(1::nat) < 3" by simp
  note c = sample_grid_witness_0
  note th = mandelbrot_origin_zero [OF lt lt c, of 50]
  from th have a: "mandelbrot 3 3 (- 1) 1 (- 1) 1 50 ! 1 ! 1 = 0" by (rule conjunct1)
  from th have b: "\<not> escaped (Z (loop_i (sample_grid 3 3 (- 1) 1 (- 1) 1) 3 3 50
                        \<lparr>Z = zeros 3 3, div_time = zeros 3 3\<rparr>) ! 1 ! 1)"
    by (rule conjunct2 [THEN spec])
  from lt c a b show ?thesis by (intro conjI)
qed

text \<open>
  C3 as the specification states it fails on that grid: the cell samples \<open>0 + 0i\<close> and the
  recorded value is not the budget 50.
\<close>

theorem mandelbrot_origin_counterexample:
  "sample_grid 3 3 (- 1) 1 (- 1) 1 ! 1 ! 1 = 0 \<and>
   sint (mandelbrot 3 3 (- 1) 1 (- 1) 1 50 ! 1 ! 1) \<noteq> 50"
proof -
  have "mandelbrot 3 3 (- 1) 1 (- 1) 1 50 ! 1 ! 1 = 0"
    by (rule mandelbrot_cell_zero [OF _ _ sample_grid_witness_0]) simp_all
  then have "sint (mandelbrot 3 3 (- 1) 1 (- 1) 1 50 ! 1 ! 1) \<noteq> 50"
    by simp
  with sample_grid_witness_0 show ?thesis by (intro conjI)
qed

text \<open>
  C5. A cell whose sample is \<open>c = 3 + 0i\<close> has the entry \<open>1\<close> in the returned grid, for every
  iteration budget of at least 2. The pass \<open>i = 0\<close> already finds \<open>|3|\<^sup>2 = 9 > 4\<close> but records the
  index \<open>0\<close>, which leaves the cell active; the pass \<open>i = 1\<close> finds \<open>|12|\<^sup>2 > 4\<close> and records
  \<open>1\<close>, after which the cell is skipped.
\<close>

theorem mandelbrot_three_escapes:
  assumes "j < h" and "k < w"
    and "sample_grid h w xmin xmax ymin ymax ! j ! k = 3"
    and "2 \<le> max_iter"
  shows "mandelbrot h w xmin xmax ymin ymax max_iter ! j ! k = 1"
proof -
  define n where "n = max_iter - 2"
  have m: "max_iter = Suc (Suc n)"
    using assms(4) by (simp add: n_def)
  have "mandelbrot h w xmin xmax ymin ymax max_iter ! j ! k =
        snd (cell_iter (sample_grid h w xmin xmax ymin ymax ! j ! k) max_iter)"
    using assms(1,2) by (rule mandelbrot_cell)
  also have "\<dots> = snd (cell_iter 3 (Suc (Suc n)))"
    by (simp only: assms(3) m)
  also have "\<dots> = 1"
    by (simp only: cell_iter_three snd_conv)
  finally show ?thesis .
qed

text \<open>The cell \<open>(1, 2)\<close> of the \<open>3 \<times> 3\<close> grid over \<open>[1, 3] \<times> [-1, 1]\<close>, budget 50.\<close>

theorem mandelbrot_three_escapes_witness:
  "(1::nat) < 3 \<and> (2::nat) < 3 \<and> sample_grid 3 3 1 3 (- 1) 1 ! 1 ! 2 = 3 \<and> (2::nat) \<le> 50 \<and>
   mandelbrot 3 3 1 3 (- 1) 1 50 ! 1 ! 2 = 1"
proof -
  have j: "(1::nat) < 3" and k: "(2::nat) < 3" and m: "(2::nat) \<le> 50" by simp_all
  note c = sample_grid_witness_3
  from mandelbrot_three_escapes [OF j k c m] j k m c show ?thesis
    by (intro conjI)
qed

text \<open>With a budget of 1 only the pass \<open>i = 0\<close> runs, and the entry is \<open>0\<close>.\<close>

lemma mandelbrot_three_single_pass:
  assumes "j < h" and "k < w"
    and "sample_grid h w xmin xmax ymin ymax ! j ! k = 3"
  shows "mandelbrot h w xmin xmax ymin ymax 1 ! j ! k = 0"
proof -
  have "mandelbrot h w xmin xmax ymin ymax 1 ! j ! k =
        snd (cell_iter (sample_grid h w xmin xmax ymin ymax ! j ! k) 1)"
    using assms(1,2) by (rule mandelbrot_cell)
  also have "\<dots> = snd (cell_iter 3 (Suc 0))"
    by (simp only: assms(3) One_nat_def)
  also have "\<dots> = 0"
    by (simp only: cell_iter_three_1 snd_conv)
  finally show ?thesis .
qed

text \<open>
  C10. For an iteration budget between 1 and \<open>2\<^sup>3\<^sup>1\<close>, every entry of the returned grid, read
  as a signed 32-bit number, lies between \<open>0\<close> and \<open>max_iter - 1\<close>: an entry is the initial
  \<open>0\<close> or a loop index \<open>i < max_iter\<close>, and up to \<open>2\<^sup>3\<^sup>1\<close> the \<^verbatim>\<open>int32\<close> cell holds the
  index unchanged. In particular \<^verbatim>\<open>max_iter\<close> itself is never an entry.
\<close>

theorem mandelbrot_entries_range:
  assumes "1 \<le> max_iter" and "max_iter \<le> 2 ^ 31"
  shows "\<forall>row \<in> set (mandelbrot h w xmin xmax ymin ymax max_iter).
           \<forall>e \<in> set row. 0 \<le> sint e \<and> sint e \<le> int max_iter - 1"
proof (intro ballI)
  fix row e
  assume "row \<in> set (mandelbrot h w xmin xmax ymin ymax max_iter)" and "e \<in> set row"
  then obtain c where "e = snd (cell_iter c max_iter)"
    using mandelbrot_entry by blast
  then show "0 \<le> sint e \<and> sint e \<le> int max_iter - 1"
    using cell_iter_sint_range [OF assms] by simp
qed

text \<open>An entry of the grid over \<open>[1, 3] \<times> [-1, 1]\<close> with budget 50.\<close>

theorem mandelbrot_entries_range_witness:
  "(1::nat) \<le> 50 \<and> (50::nat) \<le> 2 ^ 31 \<and>
   0 \<le> sint (mandelbrot 3 3 1 3 (- 1) 1 50 ! 1 ! 2) \<and>
   sint (mandelbrot 3 3 1 3 (- 1) 1 50 ! 1 ! 2) \<le> int 50 - 1"
proof -
  have a: "(1::nat) \<le> 50" and b: "(50::nat) \<le> 2 ^ 31" by simp_all
  let ?g = "mandelbrot 3 3 1 3 (- 1) 1 50"
  have r: "?g ! 1 \<in> set ?g"
    by (rule nth_mem) (simp add: mandelbrot_length)
  have e: "?g ! 1 ! 2 \<in> set (?g ! 1)"
    by (rule nth_mem) (simp add: mandelbrot_row_length)
  from mandelbrot_entries_range [OF a b, of 3 3 1 3 "- 1" 1, THEN bspec, OF r, THEN bspec, OF e]
  have c: "0 \<le> sint (?g ! 1 ! 2) \<and> sint (?g ! 1 ! 2) \<le> int 50 - 1" .
  from a b c [THEN conjunct1] c [THEN conjunct2] show ?thesis by (intro conjI)
qed

text \<open>
  C6, as the code has it. \<^verbatim>\<open>mandelbrot\<close> validates nothing: for every viewport, ordered or
  not, every height, width and budget, the call returns a grid of \<open>h\<close> rows of \<open>w\<close> entries
  each. It never fails with \<open>InvalidViewport\<close>.
\<close>

theorem mandelbrot_call_returns:
  "\<exists>g. mandelbrot_call h w xmin xmax ymin ymax max_iter = Inr g \<and> length g = h \<and>
       (\<forall>row \<in> set g. length row = w)"
proof (intro exI conjI ballI)
  show "mandelbrot_call h w xmin xmax ymin ymax max_iter =
        Inr (mandelbrot h w xmin xmax ymin ymax max_iter)"
    by (simp add: mandelbrot_call_def)
  show "length (mandelbrot h w xmin xmax ymin ymax max_iter) = h"
    by (rule mandelbrot_length)
  fix row
  assume "row \<in> set (mandelbrot h w xmin xmax ymin ymax max_iter)"
  then obtain j where "j < h" and "row = mandelbrot h w xmin xmax ymin ymax max_iter ! j"
    by (auto simp: in_set_conv_nth mandelbrot_length)
  then show "length row = w"
    by (simp add: mandelbrot_row_length)
qed

text \<open>The viewport with \<open>x\<close> from 1 to 0 and \<open>y\<close> from 1 to 0, on a \<open>2 \<times> 2\<close> grid.\<close>

theorem mandelbrot_call_returns_witness:
  "\<exists>g. mandelbrot_call 2 2 1 0 1 0 1 = Inr g \<and> length g = 2 \<and> length (g ! 0) = 2"
proof -
  obtain g where g: "mandelbrot_call 2 2 1 0 1 0 1 = Inr g" "length g = 2"
    "\<forall>row \<in> set g. length row = 2"
    using mandelbrot_call_returns [of 2 2 1 0 1 0 1] by blast
  from g(2) have "g ! 0 \<in> set g" by simp
  with g(3) have "length (g ! 0) = 2" by (rule bspec)
  with g(1,2) show ?thesis by blast
qed

text \<open>
  C6 as the specification states it fails on that viewport, whose bounds are in the
  wrong order: the call returns the grid of zeros.
\<close>

theorem mandelbrot_unordered_counterexample:
  "mandelbrot_call 2 2 1 0 1 0 1 = Inr [[0, 0], [0, 0]]"
  by (simp add: mandelbrot_call_def mandelbrot_eq upt_2 sample_grid_unordered
      cell_iter_0 cell_iter_Suc [of _ 0] cell_step_def escaped_def)

section \<open>Properties of the click handler\<close>

text \<open>
  What the handler and the slider do to the fields used below, and the initial values.
\<close>

lemma zoom_click_bounds:
  "x_min (zoom_click now x y s) = new_x s x - x_range s * calc_zoom_factor (zoom_factor s) / 2"
  "x_max (zoom_click now x y s) = new_x s x + x_range s * calc_zoom_factor (zoom_factor s) / 2"
  "y_min (zoom_click now x y s) = new_y s y - y_range s * calc_zoom_factor (zoom_factor s) / 2"
  "y_max (zoom_click now x y s) = new_y s y + y_range s * calc_zoom_factor (zoom_factor s) / 2"
  "total_zoom (zoom_click now x y s) = total_zoom s * calc_zoom_factor (zoom_factor s)"
  "zoom_pending (zoom_click now x y s) = True"
  by (simp_all add: zoom_click_def Let_def)

lemma slider_fields:
  "x_min (slider v s) = x_min s" "x_max (slider v s) = x_max s"
  "y_min (slider v s) = y_min s" "y_max (slider v s) = y_max s"
  "total_zoom (slider v s) = total_zoom s" "zoom_factor (slider v s) = v"
  "zoom_pending (slider v s) = zoom_pending s"
  "x_range (slider v s) = x_range s" "y_range (slider v s) = y_range s"
  "new_x (slider v s) x = new_x s x" "new_y (slider v s) y = new_y s y"
  by (simp_all add: slider_def x_range_def y_range_def new_x_def new_y_def)

lemma initial_fields:
  "x_min (initial_state t) = - 5 / 2" "x_max (initial_state t) = 1"
  "y_min (initial_state t) = - 5 / 4" "y_max (initial_state t) = 5 / 4"
  "total_zoom (initial_state t) = 1" "zoom_factor (initial_state t) = 1"
  "zoom_pending (initial_state t) = False"
  by (simp_all add: initial_state_def)

lemma calc_zoom_factor_pos: "n \<noteq> 0 \<Longrightarrow> 0 < calc_zoom_factor n"
  by (simp add: calc_zoom_factor_def)

lemma zoom_interaction_total_zoom:
  "\<not> zoom_pending s \<Longrightarrow>
     total_zoom (zoom_interaction s (now, v, x, y)) = total_zoom s * calc_zoom_factor v \<and>
     \<not> zoom_pending (zoom_interaction s (now, v, x, y))"
  by (simp add: zoom_interaction_def script_run_def has_dot_def zoom_pending_block_def
      canvas_click_def Let_def zoom_click_def slider_def)

lemma session_grid_nth:
  assumes "resolution s = (1600, 900)" and "j < 900" and "k < 1600"
  shows "session_grid s ! j ! k =
           Complex (x_min s + real k * (x_range s / 1599)) (y_min s + real j * (y_range s / 899))"
proof -
  have "session_grid s ! j ! k =
        Complex (linspace (x_min s) (x_max s) 1600 ! k) (linspace (y_min s) (y_max s) 900 ! j)"
    unfolding session_grid_def assms(1) fst_conv snd_conv
    using assms(2,3) by (rule nth_sample_grid)
  also have "linspace (x_min s) (x_max s) 1600 ! k = x_min s + real k * (x_range s / 1599)"
    using assms(3) by (subst nth_linspace) (simp_all add: x_range_def)
  also have "linspace (y_min s) (y_max s) 900 ! j = y_min s + real j * (y_range s / 899)"
    using assms(2) by (subst nth_linspace) (simp_all add: y_range_def)
  finally show ?thesis .
qed

text \<open>
  C2. With the slider at \<open>0\<close> the \<^verbatim>\<open>else\<close> branch of line 137 is taken and the multiplier is
  \<open>|0| = 0\<close>: not the no-op multiplier 1, not an error, and not strictly positive.
\<close>

theorem calc_zoom_factor_zero: "calc_zoom_factor 0 = 0"
  by (simp add: calc_zoom_factor_def)

text \<open>
  C1. From the initial viewport, which is ordered, a click at the centre \<open>(800, 450)\<close> with
  the slider at \<open>0\<close> gives a viewport with \<open>x_min = x_max\<close> and \<open>y_min = y_max\<close>: the
  ordering is lost.
\<close>

theorem zoom_click_zero_collapses:
  "x_min (initial_state 0) < x_max (initial_state 0) \<and>
   y_min (initial_state 0) < y_max (initial_state 0) \<and>
   x_min (zoom_click 1 800 450 (slider 0 (initial_state 0))) =
   x_max (zoom_click 1 800 450 (slider 0 (initial_state 0))) \<and>
   y_min (zoom_click 1 800 450 (slider 0 (initial_state 0))) =
   y_max (zoom_click 1 800 450 (slider 0 (initial_state 0)))"
  by (simp add: zoom_click_bounds slider_fields initial_fields calc_zoom_factor_def)

text \<open>
  C7. One zoom interaction from the initial state with the slider at \<open>0\<close> leaves
  \<^verbatim>\<open>total_zoom\<close> at \<open>0\<close>, which is not positive.
\<close>

theorem total_zoom_zero:
  "total_zoom (zoom_interaction (initial_state 0) (1, 0, 800, 450)) = 0"
  by (simp add: zoom_interaction_total_zoom initial_fields calc_zoom_factor_def)

text \<open>
  C9. With the slider at 1 (multiplier \<open>1 / 1\<close>), a click at the centre \<open>(800, 450)\<close> of the
  \<open>1600 \<times> 900\<close> canvas leaves the four bounds of an ordered viewport, and so its centre,
  unchanged. Over the reals the equalities are exact.
\<close>

theorem zoom_click_center_identity:
  assumes "x_min s < x_max s" and "y_min s < y_max s" and "zoom_factor s = 1"
  shows "x_min (zoom_click now 800 450 s) = x_min s \<and>
         x_max (zoom_click now 800 450 s) = x_max s \<and>
         y_min (zoom_click now 800 450 s) = y_min s \<and>
         y_max (zoom_click now 800 450 s) = y_max s \<and>
         (x_min (zoom_click now 800 450 s) + x_max (zoom_click now 800 450 s)) / 2 =
           (x_min s + x_max s) / 2 \<and>
         (y_min (zoom_click now 800 450 s) + y_max (zoom_click now 800 450 s)) / 2 =
           (y_min s + y_max s) / 2"
  using assms(3)
  by (simp add: zoom_click_bounds calc_zoom_factor_def new_x_def new_y_def x_range_def
      y_range_def field_simps)

text \<open>
  The initial state, whose slider value is 1.
\<close>

theorem zoom_click_center_identity_witness:
  "x_min (initial_state 0) < x_max (initial_state 0) \<and>
   y_min (initial_state 0) < y_max (initial_state 0) \<and>
   zoom_factor (initial_state 0) = 1 \<and>
   x_min (zoom_click 1 800 450 (initial_state 0)) = - 5 / 2 \<and>
   x_max (zoom_click 1 800 450 (initial_state 0)) = 1 \<and>
   y_min (zoom_click 1 800 450 (initial_state 0)) = - 5 / 4 \<and>
   y_max (zoom_click 1 800 450 (initial_state 0)) = 5 / 4"
proof -
  let ?s = "initial_state 0"
  have a: "x_min ?s < x_max ?s" and b: "y_min ?s < y_max ?s" and c: "zoom_factor ?s = 1"
    by (simp_all add: initial_fields)
  from zoom_click_center_identity [OF a b c, of 1] a b c show ?thesis
    by (simp add: initial_fields)
qed

text \<open>
  C4, as the code has it. The click mapping divides the pixel coordinate by the canvas
  size (1600 and 900), the sample grid of the render divides the index by the size minus
  one (1599 and 899). For every viewport, every row \<open>j < 900\<close> and every column \<open>k < 1600\<close>,
  the sampled coordinate is the click mapping's plus \<open>k * x_range / (1600 * 1599)\<close>, and
  likewise \<open>j * y_range / (900 * 899)\<close> for the rows: the two mappings agree where that
  offset is zero, as in column 0 and row 0.
\<close>

theorem click_mapping_offset:
  assumes "resolution s = (1600, 900)" and "j < 900" and "k < 1600"
  shows "Re (session_grid s ! j ! k) = new_x s (real k) + real k * x_range s / (1600 * 1599) \<and>
         Im (session_grid s ! j ! k) = new_y s (real j) + real j * y_range s / (900 * 899)"
  by (simp add: session_grid_nth [OF assms] new_x_def new_y_def field_simps)

text \<open>
  The last row and column of the initial viewport.
\<close>

theorem click_mapping_offset_witness:
  "resolution (initial_state 0) = (1600, 900) \<and> (899::nat) < 900 \<and> (1599::nat) < 1600 \<and>
   Re (session_grid (initial_state 0) ! 899 ! 1599) =
     new_x (initial_state 0) (real 1599) + real 1599 * x_range (initial_state 0) / (1600 * 1599) \<and>
   Im (session_grid (initial_state 0) ! 899 ! 1599) =
     new_y (initial_state 0) (real 899) + real 899 * y_range (initial_state 0) / (900 * 899)"
proof -
  have r: "resolution (initial_state 0) = (1600, 900)"
    by (simp add: initial_state_def)
  have j: "(899::nat) < 900" and k: "(1599::nat) < 1600" by simp_all
  note th = click_mapping_offset [OF r j k]
  from r j k th [THEN conjunct1] th [THEN conjunct2] show ?thesis by (intro conjI)
qed

text \<open>
  C4 as the specification states it fails in the last column of the initial viewport:
  the render samples \<open>x_max = 1\<close> there, the click mapping gives \<open>3193 / 3200\<close>.
\<close>

theorem click_mapping_counterexample:
  "Re (session_grid (initial_state 0) ! 0 ! 1599) = 1 \<and>
   new_x (initial_state 0) (real 1599) = 3193 / 3200 \<and>
   Re (session_grid (initial_state 0) ! 0 ! 1599) \<noteq> new_x (initial_state 0) (real 1599)"
proof -
  have r: "resolution (initial_state 0) = (1600, 900)"
    by (simp add: initial_state_def)
  have "session_grid (initial_state 0) ! 0 ! 1599 =
        Complex (x_min (initial_state 0) + real 1599 * (x_range (initial_state 0) / 1599))
                (y_min (initial_state 0) + real 0 * (y_range (initial_state 0) / 899))"
    by (rule session_grid_nth [OF r]) simp_all
  then have a: "Re (session_grid (initial_state 0) ! 0 ! 1599) = 1"
    by (simp add: x_range_def initial_fields)
  have b: "new_x (initial_state 0) (real 1599) = 3193 / 3200"
    by (simp add: new_x_def x_range_def initial_fields)
  have "Re (session_grid (initial_state 0) ! 0 ! 1599) \<noteq> new_x (initial_state 0) (real 1599)"
    unfolding a b by simp
  with a b show ?thesis by (intro conjI)
qed

section \<open>Properties of a run\<close>










section \<open>Further properties\<close>

text \<open>
  For every slider value but \<open>0\<close> the handler keeps an ordered viewport ordered (over the
  reals).
\<close>

theorem zoom_click_preserves_order:
  assumes "x_min s < x_max s" and "y_min s < y_max s" and "zoom_factor s \<noteq> 0"
  shows "x_min (zoom_click now x y s) < x_max (zoom_click now x y s) \<and>
         y_min (zoom_click now x y s) < y_max (zoom_click now x y s)"
proof -
  have z: "0 < calc_zoom_factor (zoom_factor s)"
    using assms(3) by (rule calc_zoom_factor_pos)
  have "0 < x_range s" and "0 < y_range s"
    using assms(1,2) by (simp_all add: x_range_def y_range_def)
  then have "0 < x_range s * calc_zoom_factor (zoom_factor s)"
    and "0 < y_range s * calc_zoom_factor (zoom_factor s)"
    using z by simp_all
  then show ?thesis
    by (simp add: zoom_click_bounds)
qed

theorem zoom_click_preserves_order_witness:
  "x_min (slider 10 (initial_state 0)) < x_max (slider 10 (initial_state 0)) \<and>
   y_min (slider 10 (initial_state 0)) < y_max (slider 10 (initial_state 0)) \<and>
   zoom_factor (slider 10 (initial_state 0)) \<noteq> 0 \<and>
   x_min (zoom_click 1 800 450 (slider 10 (initial_state 0))) <
   x_max (zoom_click 1 800 450 (slider 10 (initial_state 0))) \<and>
   y_min (zoom_click 1 800 450 (slider 10 (initial_state 0))) <
   y_max (zoom_click 1 800 450 (slider 10 (initial_state 0)))"
proof -
  let ?s = "slider 10 (initial_state 0)"
  have a: "x_min ?s < x_max ?s" and b: "y_min ?s < y_max ?s" and c: "zoom_factor ?s \<noteq> 0"
    by (simp_all add: slider_fields initial_fields)
  note th = zoom_click_preserves_order [OF a b c, of 1 800 450]
  from a b c th [THEN conjunct1] th [THEN conjunct2] show ?thesis by (intro conjI)
qed

text \<open>
  For every slider value but \<open>0\<close> the multiplier is strictly positive.
\<close>

theorem zoom_multiplier_positive: "n \<noteq> 0 \<Longrightarrow> 0 < calc_zoom_factor n"
  by (simp add: calc_zoom_factor_def)

theorem zoom_multiplier_positive_witness:
  "(- 1000::int) \<noteq> 0 \<and> 0 < calc_zoom_factor (- 1000) \<and> (1000::int) \<noteq> 0 \<and> 0 < calc_zoom_factor 1000"
proof -
  have a: "(- 1000::int) \<noteq> 0" and b: "(1000::int) \<noteq> 0" by simp_all
  from a b zoom_multiplier_positive [OF a] zoom_multiplier_positive [OF b] show ?thesis
    by (intro conjI)
qed

text \<open>
  After any sequence of zoom interactions from the initial state, \<^verbatim>\<open>total_zoom\<close> is the
  product of the multipliers of the slider values used.
\<close>

theorem total_zoom_running_product:
  "total_zoom (foldl zoom_interaction (initial_state t) as) =
     prod_list (map (\<lambda>a. calc_zoom_factor (fst (snd a))) as)"
proof -
  have "\<not> zoom_pending s \<Longrightarrow>
        total_zoom (foldl zoom_interaction s as) =
          total_zoom s * prod_list (map (\<lambda>a. calc_zoom_factor (fst (snd a))) as)" for s
  proof (induction as arbitrary: s)
    case Nil
    then show ?case by simp
  next
    case (Cons a as)
    obtain now v x y where a: "a = (now, v, x, y)" by (cases a) auto
    from zoom_interaction_total_zoom [OF Cons.prems, of now v x y]
    have "total_zoom (zoom_interaction s a) = total_zoom s * calc_zoom_factor v"
      and "\<not> zoom_pending (zoom_interaction s a)"
      unfolding a by simp_all
    with Cons.IH [of "zoom_interaction s a"] show ?case
      by (simp add: a mult.assoc)
  qed
  from this [of "initial_state t"] show ?thesis
    by (simp add: initial_fields)
qed

text \<open>
  A click at the centre of the initial viewport with the slider at 10 gives a viewport of
  width 0.35 and height 0.25 with the same centre \<open>(-0.75, 0)\<close>.
\<close>

theorem zoom_click_center_zoom_in:
  "x_max (zoom_click 1 800 450 (slider 10 (initial_state 0))) -
     x_min (zoom_click 1 800 450 (slider 10 (initial_state 0))) = 35 / 100 \<and>
   y_max (zoom_click 1 800 450 (slider 10 (initial_state 0))) -
     y_min (zoom_click 1 800 450 (slider 10 (initial_state 0))) = 25 / 100 \<and>
   (x_min (zoom_click 1 800 450 (slider 10 (initial_state 0))) +
     x_max (zoom_click 1 800 450 (slider 10 (initial_state 0)))) / 2 = - 3 / 4 \<and>
   (y_min (zoom_click 1 800 450 (slider 10 (initial_state 0))) +
     y_max (zoom_click 1 800 450 (slider 10 (initial_state 0)))) / 2 = 0"
  by (simp add: zoom_click_bounds slider_fields initial_fields calc_zoom_factor_def
      new_x_def new_y_def x_range_def y_range_def)

text \<open>
  Whatever the iteration budget, \<^verbatim>\<open>max_iter\<close> itself is never an entry of the returned
  grid.
\<close>

lemma cell_iter_not_budget:
  assumes "1 \<le> n"
  shows "sint (snd (cell_iter c n)) \<noteq> int n"
proof (cases "n \<le> 2 ^ 31")
  case True
  from cell_iter_sint_range [OF assms True, of c] show ?thesis by simp
next
  case False
  have "sint (snd (cell_iter c n)) < 2 ^ (LENGTH(32) - 1)"
    by (rule sint_lt)
  moreover have "(2::int) ^ 31 < int n"
    using False by (metis not_le of_nat_less_iff of_nat_numeral of_nat_power)
  ultimately show ?thesis by simp
qed

theorem mandelbrot_never_budget:
  assumes "1 \<le> max_iter"
  shows "\<forall>row \<in> set (mandelbrot h w xmin xmax ymin ymax max_iter).
           \<forall>e \<in> set row. sint e \<noteq> int max_iter"
proof (intro ballI)
  fix row e
  assume "row \<in> set (mandelbrot h w xmin xmax ymin ymax max_iter)" and "e \<in> set row"
  then obtain c where "e = snd (cell_iter c max_iter)"
    using mandelbrot_entry by blast
  then show "sint e \<noteq> int max_iter"
    using cell_iter_not_budget [OF assms] by simp
qed

theorem mandelbrot_never_budget_witness:
  "(1::nat) \<le> 50 \<and> sint (mandelbrot 3 3 (- 1) 1 (- 1) 1 50 ! 1 ! 1) \<noteq> int 50"
proof -
  have a: "(1::nat) \<le> 50" by simp
  let ?g = "mandelbrot 3 3 (- 1) 1 (- 1) 1 50"
  have r: "?g ! 1 \<in> set ?g"
    by (rule nth_mem) (simp add: mandelbrot_length)
  have e: "?g ! 1 ! 1 \<in> set (?g ! 1)"
    by (rule nth_mem) (simp add: mandelbrot_row_length)
  from mandelbrot_never_budget [OF a, of 3 3 "- 1" 1 "- 1" 1, THEN bspec, OF r, THEN bspec, OF e] a
  show ?thesis by (intro conjI)
qed

end
